theory Spec2Isabelle
  imports Complex_Main "HOL-Library.Multiset"
begin

section \<open>Values of a request\<close>

text \<open>
  The handlers of \<^verbatim>\<open>backend.js\<close> read the fields of \<^verbatim>\<open>req.body\<close>, a parsed JSON
  object. A field that the request does not carry reads as \<^verbatim>\<open>undefined\<close>. A value is
  any value of JSON: a primitive, an array, or an object, which is the list of its
  properties, each name once. A number is a rational: every finite double is one, and the
  code only tests a number against zero and stores it.
\<close>

datatype jsval =
    Undefined
  | JNull
  | JBool bool
  | JNum rat
  | JStr string
  | JArr "jsval list"
  | JObj "(string \<times> jsval) list"

text \<open>The test \<^verbatim>\<open>!v\<close> of JavaScript is \<open>\<not> truthy v\<close>.\<close>

fun truthy :: "jsval \<Rightarrow> bool" where
  "truthy Undefined = False"
| "truthy JNull = False"
| "truthy (JBool b) = b"
| "truthy (JNum r) = (r \<noteq> 0)"
| "truthy (JStr s) = (s \<noteq> [])"
| "truthy (JArr xs) = True"
| "truthy (JObj kvs) = True"

fun typeof :: "jsval \<Rightarrow> string" where
  "typeof Undefined = ''undefined''"
| "typeof JNull = ''object''"
| "typeof (JBool b) = ''boolean''"
| "typeof (JNum r) = ''number''"
| "typeof (JStr s) = ''string''"
| "typeof (JArr xs) = ''object''"
| "typeof (JObj kvs) = ''object''"

type_synonym body = "string \<Rightarrow> jsval"

section \<open>Documents, the database, responses\<close>

text \<open>
  The three Mongoose schemas. An \<^verbatim>\<open>_id\<close> is the 96-bit number of an ObjectId; a date is
  its time value in milliseconds.
\<close>

record user =
  u_id :: nat
  u_firstName :: string
  u_lastName :: string
  u_email :: string
  u_password :: string

record trip =
  t_id :: nat
  t_name :: string
  t_date :: int
  t_budget :: rat

record notification =
  n_id :: nat
  n_message :: string
  n_type :: string
  n_createdAt :: int

record db =
  users :: "user list"
  trips :: "trip list"
  notifications :: "notification list"

text \<open>What a rejected promise or a throwing call carries into the \<^verbatim>\<open>catch\<close> block.\<close>

datatype exn =
    IllegalArguments string string
  | SecretOrPrivateKeyMissing
  | BadTimespan
  | ValidationError "string list"
  | CastError string
  | QueryError string
  | DuplicateKey string
  | ProviderError string
  | MailError string

record jwt_payload =
  p_id :: nat
  p_email :: string
  p_iat :: int
  p_exp :: int

text \<open>A token is kept symbolic: the payload that was signed and the key that signed it.\<close>

datatype token = Signed jwt_payload string

datatype resbody =
    ErrorBody string
  | ErrorDetails string exn
  | Message string
  | MessageToken string token
  | MessageLink string string
  | MessageTrip string trip
  | MessageNotification string notification
  | TripList "trip list"
  | NotificationList "notification list"

type_synonym response = "nat \<times> resbody"

record mail =
  mail_from :: "string option"
  mail_to :: jsval
  mail_subject :: string
  mail_text :: string

section \<open>The environment of a request\<close>

text \<open>
  What the process is given and what its collaborators answer: the configuration
  (\<^verbatim>\<open>process.env\<close>), the clock, the hash function of bcryptjs (its random salt included),
  the identity provider, the mail relay, the conversions between strings, numbers and
  dates of the JavaScript runtime, and the query operators on a string path that the model
  does not spell out (\<^verbatim>\<open>$gt\<close>, \<^verbatim>\<open>$regex\<close> and the like): for an operator and its
  operand, the test on a stored string, or nothing where the operator cannot be used.
\<close>

record env =
  JWT_SECRET :: "string option"
  EMAIL_USER :: "string option"
  now :: int
  bcrypt_digest :: "string \<Rightarrow> nat \<Rightarrow> string"
  bcrypt_verify :: "string \<Rightarrow> string \<Rightarrow> bool"
  generatePasswordResetLink :: "jsval \<Rightarrow> string + string"
  sendMail :: "mail \<Rightarrow> string + unit"
  Number_toString :: "rat \<Rightarrow> string"
  Number_fromString :: "string \<Rightarrow> rat option"
  Date_fromString :: "string \<Rightarrow> int option"
  Date_fromArray :: "jsval list \<Rightarrow> int option"
  String_conditional :: "string \<Rightarrow> jsval \<Rightarrow> (string \<Rightarrow> bool) option"

text \<open>\<^verbatim>\<open>await p\<close> followed by the rest of the \<^verbatim>\<open>try\<close> block: a rejection skips the rest.\<close>

definition await :: "exn + 'a \<Rightarrow> ('a \<Rightarrow> exn + 'b) \<Rightarrow> exn + 'b" where
  "await p rest = (case p of Inl error \<Rightarrow> Inl error | Inr v \<Rightarrow> rest v)"

section \<open>The libraries\<close>

subsection \<open>bcryptjs\<close>

text \<open>
  Both calls reject an argument that is not a string. The hash of a string is the
  environment's.
\<close>

definition bcrypt_hash :: "env \<Rightarrow> jsval \<Rightarrow> nat \<Rightarrow> exn + string" where
  "bcrypt_hash env s rounds =
     (case s of
        JStr p \<Rightarrow> Inr (bcrypt_digest env p rounds)
      | _ \<Rightarrow> Inl (IllegalArguments (typeof s) ''number''))"

definition bcrypt_compare :: "env \<Rightarrow> jsval \<Rightarrow> string \<Rightarrow> exn + bool" where
  "bcrypt_compare env s hash =
     (case s of
        JStr p \<Rightarrow> Inr (bcrypt_verify env p hash)
      | _ \<Rightarrow> Inl (IllegalArguments (typeof s) ''string''))"

subsection \<open>jsonwebtoken\<close>

definition digit :: "char \<Rightarrow> nat option" where
  "digit c =
     (let n = (of_char c :: nat) in if 48 \<le> n \<and> n \<le> 57 then Some (n - 48) else None)"

fun span_digits :: "string \<Rightarrow> nat \<Rightarrow> nat \<times> string" where
  "span_digits [] acc = (acc, [])"
| "span_digits (c # cs) acc =
     (case digit c of
        Some d \<Rightarrow> span_digits cs (10 * acc + d)
      | None \<Rightarrow> (acc, c # cs))"

text \<open>The time spans of the \<^verbatim>\<open>ms\<close> package that are a count and a short unit.\<close>

definition ms :: "string \<Rightarrow> nat option" where
  "ms s =
     (case s of
        [] \<Rightarrow> None
      | c # _ \<Rightarrow>
          if digit c = None then None
          else (case span_digits s 0 of (n, unit) \<Rightarrow>
            if unit = ''d'' then Some (n * 86400000)
            else if unit = ''h'' then Some (n * 3600000)
            else if unit = ''m'' then Some (n * 60000)
            else if unit = ''s'' then Some (n * 1000)
            else if unit = ''ms'' \<or> unit = [] then Some n
            else None))"

text \<open>
  \<^verbatim>\<open>jwt.sign({ id, email }, secret, { expiresIn })\<close>: the payload gets the issue time in
  seconds and the expiry; a missing or empty key is an error.
\<close>

definition jwt_sign :: "env \<Rightarrow> nat \<Rightarrow> string \<Rightarrow> string option \<Rightarrow> string \<Rightarrow> exn + token" where
  "jwt_sign env ident email secretOrPrivateKey expiresIn =
     (case secretOrPrivateKey of
        None \<Rightarrow> Inl SecretOrPrivateKeyMissing
      | Some key \<Rightarrow>
          if key = [] then Inl SecretOrPrivateKeyMissing
          else (case ms expiresIn of
                  None \<Rightarrow> Inl BadTimespan
                | Some millis \<Rightarrow>
                    Inr (Signed \<lparr>p_id = ident, p_email = email,
                                 p_iat = now env div 1000,
                                 p_exp = now env div 1000 + int (millis div 1000)\<rparr> key)))"

subsection \<open>The identity provider and the mail relay\<close>

definition admin_generatePasswordResetLink :: "env \<Rightarrow> jsval \<Rightarrow> exn + string" where
  "admin_generatePasswordResetLink env email =
     (case generatePasswordResetLink env email of
        Inl reason \<Rightarrow> Inl (ProviderError reason)
      | Inr link \<Rightarrow> Inr link)"

definition transporter_sendMail :: "env \<Rightarrow> mail \<Rightarrow> exn + unit" where
  "transporter_sendMail env m =
     (case sendMail env m of
        Inl reason \<Rightarrow> Inl (MailError reason)
      | Inr u \<Rightarrow> Inr u)"

subsection \<open>Mongoose: casting and validation\<close>

text \<open>
  A string path takes strings, numbers and booleans, and of an object its \<^verbatim>\<open>_id\<close> when
  that is a string; a number path takes numbers, booleans and numeric strings; a date path
  takes what \<^verbatim>\<open>new Date\<close> reads as a date.
\<close>

datatype 'a casted = CastFailed | IsNull | Value 'a

fun castString :: "env \<Rightarrow> jsval \<Rightarrow> string casted" where
  "castString env Undefined = IsNull"
| "castString env JNull = IsNull"
| "castString env (JBool b) = Value (if b then ''true'' else ''false'')"
| "castString env (JNum r) = Value (Number_toString env r)"
| "castString env (JStr s) = Value s"
| "castString env (JArr xs) = CastFailed"
| "castString env (JObj kvs) =
     (case map_of kvs ''_id'' of
        Some (JStr s) \<Rightarrow> (if s = [] then CastFailed else Value s)
      | _ \<Rightarrow> CastFailed)"

fun castNumber :: "env \<Rightarrow> jsval \<Rightarrow> rat casted" where
  "castNumber env Undefined = IsNull"
| "castNumber env JNull = IsNull"
| "castNumber env (JBool b) = Value (if b then 1 else 0)"
| "castNumber env (JNum r) = Value r"
| "castNumber env (JStr s) =
     (if s = [] then IsNull
      else (case Number_fromString env s of None \<Rightarrow> CastFailed | Some r \<Rightarrow> Value r))"
| "castNumber env (JArr xs) = CastFailed"
| "castNumber env (JObj kvs) = CastFailed"

definition truncate :: "rat \<Rightarrow> int" where
  "truncate r = (if 0 \<le> r then \<lfloor>r\<rfloor> else \<lceil>r\<rceil>)"

fun castDate :: "env \<Rightarrow> jsval \<Rightarrow> int casted" where
  "castDate env Undefined = IsNull"
| "castDate env JNull = IsNull"
| "castDate env (JBool b) = CastFailed"
| "castDate env (JNum r) =
     (if \<bar>r\<bar> \<le> 8640000000000000 then Value (truncate r) else CastFailed)"
| "castDate env (JStr s) =
     (if s = [] then IsNull
      else (case Date_fromString env s of None \<Rightarrow> CastFailed | Some d \<Rightarrow> Value d))"
| "castDate env (JArr xs) =
     (case Date_fromArray env xs of None \<Rightarrow> CastFailed | Some d \<Rightarrow> Value d)"
| "castDate env (JObj kvs) = CastFailed"

text \<open>The paths that fail validation: a failed cast, or \<^verbatim>\<open>required: true\<close> unmet.\<close>

definition invalid :: "string \<Rightarrow> 'a casted \<Rightarrow> string list" where
  "invalid path c = (case c of Value v \<Rightarrow> [] | _ \<Rightarrow> [path])"

definition invalid_string :: "string \<Rightarrow> string casted \<Rightarrow> string list" where
  "invalid_string path c = (case c of Value v \<Rightarrow> (if v = [] then [path] else []) | _ \<Rightarrow> [path])"

definition hex_digit :: "char \<Rightarrow> nat option" where
  "hex_digit c =
     (let n = (of_char c :: nat) in
      if 48 \<le> n \<and> n \<le> 57 then Some (n - 48)
      else if 97 \<le> n \<and> n \<le> 102 then Some (n - 87)
      else if 65 \<le> n \<and> n \<le> 70 then Some (n - 55)
      else None)"

fun hex_value :: "string \<Rightarrow> nat \<Rightarrow> nat option" where
  "hex_value [] acc = Some acc"
| "hex_value (c # cs) acc =
     (case hex_digit c of None \<Rightarrow> None | Some d \<Rightarrow> hex_value cs (16 * acc + d))"

text \<open>
  An id in a route is cast to an ObjectId: a string of 24 hexadecimal digits. (Releases of
  the \<^verbatim>\<open>bson\<close> package before 5 also take any string of 12 bytes; the model follows
  the current rule.)
\<close>

definition castObjectId :: "string \<Rightarrow> nat option" where
  "castObjectId s = (if length s = 24 then hex_value s 0 else None)"

text \<open>A new document gets an id that its collection does not hold.\<close>

definition new_ObjectId :: "nat list \<Rightarrow> nat" where
  "new_ObjectId ids = Suc (fold max ids 0)"

fun delete_first :: "('a \<Rightarrow> bool) \<Rightarrow> 'a list \<Rightarrow> 'a list" where
  "delete_first P [] = []"
| "delete_first P (x # xs) = (if P x then xs else x # delete_first P xs)"

subsection \<open>Mongoose: the three models\<close>

text \<open>
  A collection is the list of its documents in the order of their insertion. The database
  answers every operation: a lost connection is outside the model, and the operations
  below fail only by a cast, a validation or a unique index.

  \<^verbatim>\<open>User.findOne({ email })\<close> casts the filter value for the string path \<^verbatim>\<open>email\<close> and
  returns the first user that passes the filter.
  \<^item> A primitive, or an object without operator keys, is cast to a string and compared for
    equality. \<^verbatim>\<open>undefined\<close> goes to the server as \<^verbatim>\<open>null\<close> (the driver's default),
    which no stored user has as its email.
  \<^item> An array is read as \<^verbatim>\<open>$in\<close>.
  \<^item> An object with a key that begins with \<^verbatim>\<open>$\<close> is a set of query operators, all of
    which the email must pass; any other key in such an object is an error. The operands
    of \<^verbatim>\<open>$eq\<close>, \<^verbatim>\<open>$ne\<close>, \<^verbatim>\<open>$in\<close> and \<^verbatim>\<open>$nin\<close> are cast to strings;
    \<^verbatim>\<open>$exists\<close> takes a boolean; every stored user has an email, which is a string.
\<close>

definition operator_key :: "string \<Rightarrow> bool" where
  "operator_key k = (take 1 k = ''$'')"

definition equal_to :: "string casted \<Rightarrow> exn + (string \<Rightarrow> bool)" where
  "equal_to c =
     (case c of
        CastFailed \<Rightarrow> Inl (CastError ''email'')
      | IsNull \<Rightarrow> Inr (\<lambda>s. False)
      | Value v \<Rightarrow> Inr (\<lambda>s. s = v))"

definition cast_operands :: "env \<Rightarrow> jsval \<Rightarrow> string casted list" where
  "cast_operands env operand =
     map (castString env) (case operand of JArr xs \<Rightarrow> xs | _ \<Rightarrow> [operand])"

definition conditional :: "env \<Rightarrow> string \<Rightarrow> jsval \<Rightarrow> exn + (string \<Rightarrow> bool)" where
  "conditional env operator operand =
     (if \<not> operator_key operator then Inl (QueryError operator)
      else if operator = ''$eq'' then equal_to (castString env operand)
      else if operator = ''$ne'' then
        (case castString env operand of
           CastFailed \<Rightarrow> Inl (CastError ''email'')
         | IsNull \<Rightarrow> Inr (\<lambda>s. True)
         | Value v \<Rightarrow> Inr (\<lambda>s. s \<noteq> v))
      else if operator = ''$in'' then
        (if CastFailed \<in> set (cast_operands env operand) then Inl (CastError ''email'')
         else Inr (\<lambda>s. Value s \<in> set (cast_operands env operand)))
      else if operator = ''$nin'' then
        (if CastFailed \<in> set (cast_operands env operand) then Inl (CastError ''email'')
         else Inr (\<lambda>s. Value s \<notin> set (cast_operands env operand)))
      else if operator = ''$exists'' then
        (case operand of JBool b \<Rightarrow> Inr (\<lambda>s. b) | _ \<Rightarrow> Inl (QueryError operator))
      else (case String_conditional env operator operand of
              None \<Rightarrow> Inl (QueryError operator)
            | Some test \<Rightarrow> Inr test))"

fun conditionals :: "env \<Rightarrow> (string \<times> jsval) list \<Rightarrow> exn + (string \<Rightarrow> bool)" where
  "conditionals env [] = Inr (\<lambda>s. True)"
| "conditionals env ((operator, operand) # rest) =
     await (conditional env operator operand) (\<lambda>test.
     await (conditionals env rest) (\<lambda>others.
       Inr (\<lambda>s. test s \<and> others s)))"

definition email_filter :: "env \<Rightarrow> jsval \<Rightarrow> exn + (string \<Rightarrow> bool)" where
  "email_filter env email =
     (case email of
        JArr xs \<Rightarrow> conditional env ''$in'' email
      | JObj kvs \<Rightarrow>
          if list_ex (\<lambda>(k, v). operator_key k) kvs then conditionals env (rev kvs)
          else equal_to (castString env email)
      | _ \<Rightarrow> equal_to (castString env email))"

definition User_findOne :: "env \<Rightarrow> user list \<Rightarrow> jsval \<Rightarrow> exn + user option" where
  "User_findOne env us email =
     await (email_filter env email) (\<lambda>passes. Inr (find (\<lambda>u. passes (u_email u)) us))"

text \<open>
  \<^verbatim>\<open>new User({...}).save()\<close>: validation of the four required strings, then the insert
  under the unique index on \<^verbatim>\<open>email\<close>.
\<close>

definition User_save ::
  "env \<Rightarrow> user list \<Rightarrow> jsval \<Rightarrow> jsval \<Rightarrow> jsval \<Rightarrow> jsval \<Rightarrow> exn + user list" where
  "User_save env us firstName lastName email password =
     (let f = castString env firstName; l = castString env lastName;
          e = castString env email; p = castString env password;
          errors = invalid_string ''firstName'' f @ invalid_string ''lastName'' l
                 @ invalid_string ''email'' e @ invalid_string ''password'' p
      in case (f, l, e, p) of
           (Value fv, Value lv, Value ev, Value pv) \<Rightarrow>
             if errors \<noteq> [] then Inl (ValidationError errors)
             else if ev \<in> set (map u_email us) then Inl (DuplicateKey ''email'')
             else Inr (us @ [\<lparr>u_id = new_ObjectId (map u_id us), u_firstName = fv,
                               u_lastName = lv, u_email = ev, u_password = pv\<rparr>])
         | _ \<Rightarrow> Inl (ValidationError errors))"

definition Trip_save :: "env \<Rightarrow> trip list \<Rightarrow> jsval \<Rightarrow> jsval \<Rightarrow> jsval \<Rightarrow> exn + trip \<times> trip list" where
  "Trip_save env ts name date budget =
     (let n = castString env name; d = castDate env date; b = castNumber env budget;
          errors = invalid_string ''name'' n @ invalid ''date'' d @ invalid ''budget'' b
      in case (n, d, b) of
           (Value nv, Value dv, Value bv) \<Rightarrow>
             if errors \<noteq> [] then Inl (ValidationError errors)
             else (let newTrip = \<lparr>t_id = new_ObjectId (map t_id ts), t_name = nv,
                                   t_date = dv, t_budget = bv\<rparr>
                   in Inr (newTrip, ts @ [newTrip]))
         | _ \<Rightarrow> Inl (ValidationError errors))"

text \<open>\<^verbatim>\<open>Trip.find().sort({ date: 1 })\<close>.\<close>

definition Trip_find_sort :: "trip list \<Rightarrow> exn + trip list" where
  "Trip_find_sort ts = Inr (sort_key t_date ts)"

definition Trip_findByIdAndDelete :: "trip list \<Rightarrow> string \<Rightarrow> exn + trip list" where
  "Trip_findByIdAndDelete ts ident =
     (case castObjectId ident of
        None \<Rightarrow> Inl (CastError ''_id'')
      | Some oid \<Rightarrow> Inr (delete_first (\<lambda>t. t_id t = oid) ts))"

text \<open>\<^verbatim>\<open>createdAt\<close> is not given by the handler and defaults to \<^verbatim>\<open>Date.now\<close>.\<close>

definition Notification_save ::
  "env \<Rightarrow> notification list \<Rightarrow> jsval \<Rightarrow> jsval \<Rightarrow> exn + notification \<times> notification list" where
  "Notification_save env ns message type =
     (let m = castString env message; t = castString env type;
          errors = invalid_string ''message'' m @ invalid_string ''type'' t
      in case (m, t) of
           (Value mv, Value tv) \<Rightarrow>
             if errors \<noteq> [] then Inl (ValidationError errors)
             else (let newNotification = \<lparr>n_id = new_ObjectId (map n_id ns), n_message = mv,
                                           n_type = tv, n_createdAt = now env\<rparr>
                   in Inr (newNotification, ns @ [newNotification]))
         | _ \<Rightarrow> Inl (ValidationError errors))"

text \<open>\<^verbatim>\<open>Notification.find().sort({ createdAt: -1 })\<close>.\<close>

definition Notification_find_sort :: "notification list \<Rightarrow> exn + notification list" where
  "Notification_find_sort ns = Inr (sort_key (\<lambda>n. - n_createdAt n) ns)"

definition Notification_findByIdAndDelete ::
  "notification list \<Rightarrow> string \<Rightarrow> exn + notification list" where
  "Notification_findByIdAndDelete ns ident =
     (case castObjectId ident of
        None \<Rightarrow> Inl (CastError ''_id'')
      | Some oid \<Rightarrow> Inr (delete_first (\<lambda>n. n_id n = oid) ns))"

section \<open>The handlers\<close>

text \<open>
  Each handler is the \<^verbatim>\<open>try\<close> block, which ends in a response and the database it leaves,
  or in an exception; and the \<^verbatim>\<open>catch\<close> block around it. In every handler the write to
  the database is the last call that can throw, so the \<^verbatim>\<open>catch\<close> block sees the database
  as the request found it.
\<close>

subsection \<open>\<^verbatim>\<open>POST /signup\<close>\<close>

definition signup_try :: "env \<Rightarrow> db \<Rightarrow> body \<Rightarrow> exn + response \<times> db" where
  "signup_try env d req_body =
     (let firstName = req_body ''firstName''; lastName = req_body ''lastName'';
          email = req_body ''email''; password = req_body ''password''
      in if \<not> truthy firstName \<or> \<not> truthy lastName \<or> \<not> truthy email \<or> \<not> truthy password
         then Inr ((400, ErrorBody ''All fields are required''), d)
         else
           await (User_findOne env (users d) email) (\<lambda>existingUser.
             if existingUser \<noteq> None
             then Inr ((400, ErrorBody ''Email already registered''), d)
             else
               await (bcrypt_hash env password 10) (\<lambda>hashedPassword.
               await (User_save env (users d) firstName lastName email (JStr hashedPassword))
                 (\<lambda>saved.
                   Inr ((201, Message ''User registered successfully!''),
                        d\<lparr>users := saved\<rparr>)))))"

definition signup :: "env \<Rightarrow> db \<Rightarrow> body \<Rightarrow> response \<times> db" where
  "signup env d req_body =
     (case signup_try env d req_body of
        Inr r \<Rightarrow> r
      | Inl error \<Rightarrow> ((500, ErrorDetails ''Error adding user'' error), d))"

subsection \<open>\<^verbatim>\<open>POST /login\<close>\<close>

definition login_try :: "env \<Rightarrow> db \<Rightarrow> body \<Rightarrow> exn + response" where
  "login_try env d req_body =
     (let email = req_body ''email''; password = req_body ''password''
      in await (User_findOne env (users d) email) (\<lambda>found.
           case found of
             None \<Rightarrow> Inr (400, ErrorBody ''User not found'')
           | Some user \<Rightarrow>
               await (bcrypt_compare env password (u_password user)) (\<lambda>isMatch.
                 if \<not> isMatch then Inr (400, ErrorBody ''Invalid credentials'')
                 else
                   await (jwt_sign env (u_id user) (u_email user) (JWT_SECRET env) ''1h'')
                     (\<lambda>token. Inr (200, MessageToken ''Login successful!'' token)))))"

definition login :: "env \<Rightarrow> db \<Rightarrow> body \<Rightarrow> response" where
  "login env d req_body =
     (case login_try env d req_body of
        Inr r \<Rightarrow> r
      | Inl error \<Rightarrow> (500, ErrorDetails ''Server error'' error))"

subsection \<open>\<^verbatim>\<open>POST /reset-password\<close>\<close>

definition reset_password_try :: "env \<Rightarrow> body \<Rightarrow> exn + response" where
  "reset_password_try env req_body =
     (let email = req_body ''email''
      in await (admin_generatePasswordResetLink env email) (\<lambda>link.
         await (transporter_sendMail env
                  \<lparr>mail_from = EMAIL_USER env, mail_to = email,
                   mail_subject = ''Password Reset'',
                   mail_text = ''Click the following link to reset your password: '' @ link\<rparr>)
           (\<lambda>sent. Inr (200, MessageLink ''Password reset email sent!'' link))))"

definition reset_password :: "env \<Rightarrow> body \<Rightarrow> response" where
  "reset_password env req_body =
     (case reset_password_try env req_body of
        Inr r \<Rightarrow> r
      | Inl error \<Rightarrow> (500, ErrorBody ''Failed to send reset email''))"

subsection \<open>\<^verbatim>\<open>POST /trip/add\<close>, \<^verbatim>\<open>GET /trip\<close>, \<^verbatim>\<open>DELETE /trip/delete/:id\<close>\<close>

definition trip_add_try :: "env \<Rightarrow> db \<Rightarrow> body \<Rightarrow> exn + response \<times> db" where
  "trip_add_try env d req_body =
     (let name = req_body ''name''; date = req_body ''date''; budget = req_body ''budget''
      in if \<not> truthy name \<or> \<not> truthy date \<or> \<not> truthy budget
         then Inr ((400, ErrorBody ''All fields are required''), d)
         else
           await (Trip_save env (trips d) name date budget) (\<lambda>(newTrip, saved).
             Inr ((201, MessageTrip ''Trip added successfully!'' newTrip),
                  d\<lparr>trips := saved\<rparr>)))"

definition trip_add :: "env \<Rightarrow> db \<Rightarrow> body \<Rightarrow> response \<times> db" where
  "trip_add env d req_body =
     (case trip_add_try env d req_body of
        Inr r \<Rightarrow> r
      | Inl error \<Rightarrow> ((500, ErrorBody ''Error adding trip''), d))"

definition trip_list :: "db \<Rightarrow> response" where
  "trip_list d =
     (case Trip_find_sort (trips d) of
        Inr found \<Rightarrow> (200, TripList found)
      | Inl error \<Rightarrow> (500, ErrorBody ''Error fetching trips''))"

definition trip_delete :: "db \<Rightarrow> string \<Rightarrow> response \<times> db" where
  "trip_delete d ident =
     (case Trip_findByIdAndDelete (trips d) ident of
        Inr remaining \<Rightarrow> ((200, Message ''Trip deleted successfully!''), d\<lparr>trips := remaining\<rparr>)
      | Inl error \<Rightarrow> ((500, ErrorBody ''Error deleting trip''), d))"

subsection \<open>\<^verbatim>\<open>POST /notification/add\<close>, \<^verbatim>\<open>GET /notification\<close>, \<^verbatim>\<open>DELETE /notification/delete/:id\<close>\<close>

definition notification_add_try :: "env \<Rightarrow> db \<Rightarrow> body \<Rightarrow> exn + response \<times> db" where
  "notification_add_try env d req_body =
     (let message = req_body ''message''; type = req_body ''type''
      in if \<not> truthy message \<or> \<not> truthy type
         then Inr ((400, ErrorBody ''Message and type are required''), d)
         else
           await (Notification_save env (notifications d) message type)
             (\<lambda>(newNotification, saved).
               Inr ((201, MessageNotification ''Notification added successfully!'' newNotification),
                    d\<lparr>notifications := saved\<rparr>)))"

definition notification_add :: "env \<Rightarrow> db \<Rightarrow> body \<Rightarrow> response \<times> db" where
  "notification_add env d req_body =
     (case notification_add_try env d req_body of
        Inr r \<Rightarrow> r
      | Inl error \<Rightarrow> ((500, ErrorDetails ''Error adding notification'' error), d))"

definition notification_list :: "db \<Rightarrow> response" where
  "notification_list d =
     (case Notification_find_sort (notifications d) of
        Inr found \<Rightarrow> (200, NotificationList found)
      | Inl error \<Rightarrow> (500, ErrorBody ''Error fetching notifications''))"

definition notification_delete :: "db \<Rightarrow> string \<Rightarrow> response \<times> db" where
  "notification_delete d ident =
     (case Notification_findByIdAndDelete (notifications d) ident of
        Inr remaining \<Rightarrow>
          ((200, Message ''Notification deleted successfully!''), d\<lparr>notifications := remaining\<rparr>)
      | Inl error \<Rightarrow> ((500, ErrorBody ''Error deleting notification''), d))"

section \<open>Example requests\<close>

definition json :: "(string \<times> jsval) list \<Rightarrow> body" where
  "json kvs k = (case map_of kvs k of None \<Rightarrow> Undefined | Some v \<Rightarrow> v)"

definition example_env :: env where
  "example_env =
     \<lparr>JWT_SECRET = Some ''s3cret'', EMAIL_USER = Some ''noreply@example.com'',
      now = 1700000000000,
      bcrypt_digest = (\<lambda>p rounds. ''$2a$10$'' @ rev p),
      bcrypt_verify = (\<lambda>p hash. hash = ''$2a$10$'' @ rev p),
      generatePasswordResetLink =
        (\<lambda>email. case email of JStr s \<Rightarrow> Inr (''https://id.example/reset/'' @ s)
                   | _ \<Rightarrow> Inl ''auth/invalid-email''),
      sendMail =
        (\<lambda>m. if mail_to m = JStr ''bounce@example.com'' then Inl ''EENVELOPE'' else Inr ()),
      Number_toString = (\<lambda>r. ''0''),
      Number_fromString = (\<lambda>s. None),
      Date_fromString = (\<lambda>s. None),
      Date_fromArray = (\<lambda>xs. None),
      String_conditional = (\<lambda>operator operand. None)\<rparr>"

definition alice :: user where
  "alice = \<lparr>u_id = 1, u_firstName = ''Alice'', u_lastName = ''A'',
            u_email = ''alice@example.com'', u_password = ''$2a$10$drowssap''\<rparr>"

definition example_db :: db where
  "example_db = \<lparr>users = [alice], trips = [], notifications = []\<rparr>"

definition req_login_ok :: body where
  "req_login_ok = json [(''email'', JStr ''alice@example.com''), (''password'', JStr ''password'')]"

definition req_login_wrong_password :: body where
  "req_login_wrong_password =
     json [(''email'', JStr ''alice@example.com''), (''password'', JStr ''letmein'')]"

definition req_login_unknown :: body where
  "req_login_unknown =
     json [(''email'', JStr ''nobody@example.com''), (''password'', JStr ''password'')]"

definition req_login_no_email :: body where
  "req_login_no_email = json [(''password'', JStr ''password'')]"

definition req_login_no_password :: body where
  "req_login_no_password = json [(''email'', JStr ''alice@example.com'')]"

definition req_signup_bob :: body where
  "req_signup_bob =
     json [(''firstName'', JStr ''Bob''), (''lastName'', JStr ''B''),
           (''email'', JStr ''bob@example.com''), (''password'', JStr ''pw'')]"

definition req_signup_empty_name :: body where
  "req_signup_empty_name =
     json [(''firstName'', JStr ''''), (''lastName'', JStr ''B''),
           (''email'', JStr ''bob@example.com''), (''password'', JStr ''pw'')]"

definition req_signup_alice_again :: body where
  "req_signup_alice_again =
     json [(''firstName'', JStr ''Alicia''), (''lastName'', JStr ''Z''),
           (''email'', JStr ''alice@example.com''), (''password'', JStr ''other'')]"

definition req_signup_alice_empty_name :: body where
  "req_signup_alice_empty_name =
     json [(''firstName'', JStr ''''), (''lastName'', JStr ''Z''),
           (''email'', JStr ''alice@example.com''), (''password'', JStr ''other'')]"

definition bob :: user where
  "bob = \<lparr>u_id = 2, u_firstName = ''Bob'', u_lastName = ''B'',
          u_email = ''bob@example.com'', u_password = ''$2a$10$wp''\<rparr>"

definition req_reset_alice :: body where
  "req_reset_alice = json [(''email'', JStr ''alice@example.com'')]"

definition req_reset_bounce :: body where
  "req_reset_bounce = json [(''email'', JStr ''bounce@example.com'')]"

definition req_reset_no_email :: body where
  "req_reset_no_email = json []"

definition req_trip_no_budget :: body where
  "req_trip_no_budget = json [(''name'', JStr ''Paris''), (''date'', JStr ''2025-06-01'')]"

definition req_trip_zero_budget :: body where
  "req_trip_zero_budget =
     json [(''name'', JStr ''Paris''), (''date'', JStr ''2025-06-01''), (''budget'', JNum 0)]"

definition req_trip_empty_name :: body where
  "req_trip_empty_name =
     json [(''name'', JStr ''''), (''date'', JStr ''2025-06-01''), (''budget'', JNum 900)]"

definition req_notification_no_type :: body where
  "req_notification_no_type = json [(''message'', JStr ''Boarding at 9'')]"

definition req_notification_empty_type :: body where
  "req_notification_empty_type = json [(''message'', JStr ''Boarding at 9''), (''type'', JStr '''')]"

definition paris :: trip where
  "paris = \<lparr>t_id = 1, t_name = ''Paris'', t_date = 1748736000000, t_budget = 900\<rparr>"

definition rome :: trip where
  "rome = \<lparr>t_id = 2, t_name = ''Rome'', t_date = 1751328000000, t_budget = 1200\<rparr>"

definition oslo :: trip where
  "oslo = \<lparr>t_id = 3, t_name = ''Oslo'', t_date = 1754006400000, t_budget = 1500\<rparr>"

definition boarding :: notification where
  "boarding = \<lparr>n_id = 1, n_message = ''Boarding at 9'', n_type = ''info'',
               n_createdAt = 1700000000000\<rparr>"

definition delayed :: notification where
  "delayed = \<lparr>n_id = 2, n_message = ''Flight delayed'', n_type = ''alert'',
              n_createdAt = 1700000600000\<rparr>"

definition travel_db :: db where
  "travel_db = \<lparr>users = [alice], trips = [oslo, paris, rome], notifications = [boarding, delayed]\<rparr>"

definition req_login_operator :: body where
  "req_login_operator =
     json [(''email'', JObj [(''$ne'', JNull)]), (''password'', JStr ''password'')]"





section \<open>Login\<close>

lemma await_Inr [simp]: "await (Inr v) rest = rest v"
  by (simp add: await_def)

lemma await_Inl [simp]: "await (Inl e) rest = Inl e"
  by (simp add: await_def)

lemma ms_1h: "ms ''1h'' = Some 3600000"
  by (simp add: ms_def digit_def)

lemma jwt_sign_1h:
  "key \<noteq> [] \<Longrightarrow>
   jwt_sign env i e (Some key) ''1h'' =
     Inr (Signed \<lparr>p_id = i, p_email = e, p_iat = now env div 1000,
                  p_exp = now env div 1000 + 3600\<rparr> key)"
  by (simp add: jwt_sign_def ms_1h)

lemma User_findOne_JStr:
  "User_findOne env us (JStr e) = Inr (find (\<lambda>u. u_email u = e) us)"
  by (simp add: User_findOne_def email_filter_def equal_to_def)

lemma User_findOne_Undefined: "User_findOne env us Undefined = Inr None"
  by (simp add: User_findOne_def email_filter_def equal_to_def find_None_iff)

text \<open>
  For an email that is neither an array nor an object the lookup is by equality with the
  email as cast to a string.
\<close>

lemma User_findOne_primitive:
  assumes "\<And>xs. email \<noteq> JArr xs" and "\<And>kvs. email \<noteq> JObj kvs"
  shows "User_findOne env us email =
    Inr (find (\<lambda>u. Value (u_email u) = castString env email) us)"
  by (cases email)
    (use assms in \<open>auto simp add: User_findOne_def email_filter_def equal_to_def\<close>)

lemma User_findOne_ne_null:
  "User_findOne env us (JObj [(''$ne'', JNull)]) = Inr (find (\<lambda>u. True) us)"
  by (simp add: User_findOne_def email_filter_def conditional_def operator_key_def)

lemma login_not_found:
  "User_findOne env (users d) (req_body ''email'') = Inr None \<Longrightarrow>
   login env d req_body = (400, ErrorBody ''User not found'')"
  by (simp add: login_def login_try_def)

lemma login_invalid:
  "User_findOne env (users d) (req_body ''email'') = Inr (Some user) \<Longrightarrow>
   bcrypt_compare env (req_body ''password'') (u_password user) = Inr False \<Longrightarrow>
   login env d req_body = (400, ErrorBody ''Invalid credentials'')"
  by (simp add: login_def login_try_def)

lemma login_compare_throws:
  "User_findOne env (users d) (req_body ''email'') = Inr (Some user) \<Longrightarrow>
   bcrypt_compare env (req_body ''password'') (u_password user) = Inl error \<Longrightarrow>
   login env d req_body = (500, ErrorDetails ''Server error'' error)"
  by (simp add: login_def login_try_def)

lemma login_success:
  "User_findOne env (users d) (req_body ''email'') = Inr (Some user) \<Longrightarrow>
   bcrypt_compare env (req_body ''password'') (u_password user) = Inr True \<Longrightarrow>
   JWT_SECRET env = Some key \<Longrightarrow> key \<noteq> [] \<Longrightarrow>
   login env d req_body =
     (200, MessageToken ''Login successful!''
        (Signed \<lparr>p_id = u_id user, p_email = u_email user, p_iat = now env div 1000,
                  p_exp = now env div 1000 + 3600\<rparr> key))"
  by (simp add: login_def login_try_def jwt_sign_1h)

lemma find_alice:
  "User_findOne example_env (users example_db) (JStr ''alice@example.com'') = Inr (Some alice)"
  by (simp add: User_findOne_JStr example_db_def alice_def)

lemma find_nobody:
  "User_findOne example_env (users example_db) (JStr ''nobody@example.com'') = Inr None"
  by (simp add: User_findOne_JStr example_db_def alice_def)

lemma find_by_operator:
  "User_findOne example_env (users example_db) (JObj [(''$ne'', JNull)]) = Inr (Some alice)"
  by (simp add: User_findOne_ne_null example_db_def)

lemma compare_alice_ok:
  "bcrypt_compare example_env (JStr ''password'') (u_password alice) = Inr True"
  by (simp add: bcrypt_compare_def example_env_def alice_def)

lemma compare_alice_wrong:
  "bcrypt_compare example_env (JStr ''letmein'') (u_password alice) = Inr False"
  by (simp add: bcrypt_compare_def example_env_def alice_def)

lemma req_login_fields:
  "req_login_ok ''email'' = JStr ''alice@example.com''"
  "req_login_ok ''password'' = JStr ''password''"
  "req_login_wrong_password ''email'' = JStr ''alice@example.com''"
  "req_login_wrong_password ''password'' = JStr ''letmein''"
  "req_login_unknown ''email'' = JStr ''nobody@example.com''"
  "req_login_unknown ''password'' = JStr ''password''"
  "req_login_no_email ''email'' = Undefined"
  "req_login_no_email ''password'' = JStr ''password''"
  "req_login_no_password ''email'' = JStr ''alice@example.com''"
  "req_login_no_password ''password'' = Undefined"
  "req_login_operator ''email'' = JObj [(''$ne'', JNull)]"
  "req_login_operator ''password'' = JStr ''password''"
  by (simp_all add: json_def req_login_ok_def req_login_wrong_password_def
      req_login_unknown_def req_login_no_email_def req_login_no_password_def
      req_login_operator_def)

lemma example_facts:
  "JWT_SECRET example_env = Some ''s3cret''" "now example_env = 1700000000000"
  "u_id alice = 1" "u_email alice = ''alice@example.com''" "users example_db = [alice]"
  by (simp_all add: example_env_def alice_def example_db_def)

text \<open>
  An email need not be a string. The object \<^verbatim>\<open>{"$ne": null}\<close> is no stored user's email,
  yet the lookup takes it as a query, finds the first stored user, and with that user's
  password the login succeeds.
\<close>

theorem login_operator_email_counterexample:
  "users example_db = [alice]
   \<and> JStr (u_email alice) \<noteq> req_login_operator ''email''
   \<and> login example_env example_db req_login_operator =
       (200, MessageToken ''Login successful!''
          (Signed \<lparr>p_id = 1, p_email = ''alice@example.com'', p_iat = 1700000000,
                    p_exp = 1700003600\<rparr> ''s3cret''))
   \<and> login example_env example_db req_login_operator \<noteq> (400, ErrorBody ''User not found'')"
proof -
  have "login example_env example_db req_login_operator =
       (200, MessageToken ''Login successful!''
          (Signed \<lparr>p_id = u_id alice, p_email = u_email alice,
                    p_iat = now example_env div 1000,
                    p_exp = now example_env div 1000 + 3600\<rparr> ''s3cret''))"
    by (rule login_success)
      (simp_all add: req_login_fields find_by_operator compare_alice_ok example_facts(1))
  then show ?thesis
    by (simp add: example_facts req_login_fields)
qed

text \<open>
  C1, as the code has it. For every login request, with the user being the one that the
  lookup \<^verbatim>\<open>User.findOne({ email })\<close> returns: when it returns none the handler answers 400
  \<^verbatim>\<open>User not found\<close>; when it returns a user and the bcrypt comparison of the submitted
  password with that user's stored hash is false it answers 400
  \<^verbatim>\<open>Invalid credentials\<close>; when the comparison is true it answers 200 with a token whose
  payload is that user's id and email, issued now and expiring 3600 seconds later, signed
  with the secret the server holds. For an email that is a string the lookup returns the
  first stored user with exactly that email, and none when no stored user has it.
\<close>

theorem login_outcomes:
  "(User_findOne env (users d) (req_body ''email'') = Inr None \<longrightarrow>
      login env d req_body = (400, ErrorBody ''User not found''))
   \<and> (User_findOne env (users d) (req_body ''email'') = Inr (Some user)
        \<and> bcrypt_compare env (req_body ''password'') (u_password user) = Inr False \<longrightarrow>
      login env d req_body = (400, ErrorBody ''Invalid credentials''))
   \<and> (User_findOne env (users d) (req_body ''email'') = Inr (Some user)
        \<and> bcrypt_compare env (req_body ''password'') (u_password user) = Inr True
        \<and> JWT_SECRET env = Some key \<and> key \<noteq> [] \<longrightarrow>
      login env d req_body =
        (200, MessageToken ''Login successful!''
           (Signed \<lparr>p_id = u_id user, p_email = u_email user, p_iat = now env div 1000,
                     p_exp = now env div 1000 + 3600\<rparr> key)))
   \<and> User_findOne env (users d) (JStr e) = Inr (find (\<lambda>u. u_email u = e) (users d))
   \<and> (req_body ''email'' = JStr e \<and> e \<notin> set (map u_email (users d)) \<longrightarrow>
      login env d req_body = (400, ErrorBody ''User not found''))"
proof (intro conjI impI)
  assume "User_findOne env (users d) (req_body ''email'') = Inr None"
  then show "login env d req_body = (400, ErrorBody ''User not found'')"
    by (rule login_not_found)
next
  assume "User_findOne env (users d) (req_body ''email'') = Inr (Some user)
        \<and> bcrypt_compare env (req_body ''password'') (u_password user) = Inr False"
  then show "login env d req_body = (400, ErrorBody ''Invalid credentials'')"
    by (simp add: login_invalid)
next
  assume "User_findOne env (users d) (req_body ''email'') = Inr (Some user)
        \<and> bcrypt_compare env (req_body ''password'') (u_password user) = Inr True
        \<and> JWT_SECRET env = Some key \<and> key \<noteq> []"
  then show "login env d req_body =
        (200, MessageToken ''Login successful!''
           (Signed \<lparr>p_id = u_id user, p_email = u_email user, p_iat = now env div 1000,
                     p_exp = now env div 1000 + 3600\<rparr> key))"
    by (simp add: login_success)
next
  show "User_findOne env (users d) (JStr e) = Inr (find (\<lambda>u. u_email u = e) (users d))"
    by (rule User_findOne_JStr)
next
  assume a: "req_body ''email'' = JStr e \<and> e \<notin> set (map u_email (users d))"
  then have "find (\<lambda>u. u_email u = e) (users d) = None"
    by (auto simp add: find_None_iff)
  with a have "User_findOne env (users d) (req_body ''email'') = Inr None"
    by (simp add: User_findOne_JStr)
  then show "login env d req_body = (400, ErrorBody ''User not found'')"
    by (rule login_not_found)
qed

theorem login_outcomes_witness:
  "login example_env example_db req_login_unknown = (400, ErrorBody ''User not found'')
   \<and> login example_env example_db req_login_wrong_password =
       (400, ErrorBody ''Invalid credentials'')
   \<and> login example_env example_db req_login_ok =
       (200, MessageToken ''Login successful!''
          (Signed \<lparr>p_id = 1, p_email = ''alice@example.com'', p_iat = 1700000000,
                    p_exp = 1700003600\<rparr> ''s3cret''))"
  using login_outcomes [of example_env example_db req_login_unknown _ _ "''nobody@example.com''"]
    login_outcomes [of example_env example_db req_login_wrong_password alice]
    login_outcomes [of example_env example_db req_login_ok alice "''s3cret''"]
  by (simp add: req_login_fields find_alice find_nobody compare_alice_ok
      compare_alice_wrong example_facts)

text \<open>
  The two ways a login fails are not answered alike: a request with an unknown email and a
  request with a known email and a wrong password get different responses.
\<close>

theorem login_failures_counterexample:
  "User_findOne example_env (users example_db) (req_login_unknown ''email'') = Inr None
   \<and> User_findOne example_env (users example_db) (req_login_wrong_password ''email'')
       = Inr (Some alice)
   \<and> bcrypt_compare example_env (req_login_wrong_password ''password'') (u_password alice)
       = Inr False
   \<and> login example_env example_db req_login_unknown
       \<noteq> login example_env example_db req_login_wrong_password"
  by (simp add: req_login_fields find_alice find_nobody compare_alice_wrong
      login_not_found login_invalid)

text \<open>
  C3, as the code has it. Of two failing logins, one with an email that matches no stored
  user and one with an email that matches a user and a password that fails the comparison,
  both are answered with status 400, the first with the error \<^verbatim>\<open>User not found\<close> and
  the second with the error \<^verbatim>\<open>Invalid credentials\<close>: the responses differ, and the
  difference tells whether the email is registered.
\<close>

theorem login_failures_differ:
  "User_findOne env (users d) (req1 ''email'') = Inr None
   \<and> User_findOne env (users d) (req2 ''email'') = Inr (Some user)
   \<and> bcrypt_compare env (req2 ''password'') (u_password user) = Inr False \<longrightarrow>
     fst (login env d req1) = 400 \<and> fst (login env d req2) = 400
     \<and> snd (login env d req1) = ErrorBody ''User not found''
     \<and> snd (login env d req2) = ErrorBody ''Invalid credentials''
     \<and> login env d req1 \<noteq> login env d req2"
  by (simp add: login_not_found login_invalid)

theorem login_failures_differ_witness:
  "fst (login example_env example_db req_login_unknown) = 400
   \<and> fst (login example_env example_db req_login_wrong_password) = 400
   \<and> snd (login example_env example_db req_login_unknown) = ErrorBody ''User not found''
   \<and> snd (login example_env example_db req_login_wrong_password)
       = ErrorBody ''Invalid credentials''
   \<and> login example_env example_db req_login_unknown
       \<noteq> login example_env example_db req_login_wrong_password"
  using login_failures_differ
    [of example_env example_db req_login_unknown req_login_wrong_password alice]
  by (simp add: req_login_fields find_alice find_nobody compare_alice_wrong)

text \<open>
  C10. Login does not check that its fields are present. A request without an email is
  answered 400 \<^verbatim>\<open>User not found\<close>. A request whose email matches a stored user and
  whose password is absent makes the comparison throw, and is answered 500
  \<^verbatim>\<open>Server error\<close>, not 400.
\<close>

theorem login_no_presence_check:
  "(req_body ''email'' = Undefined \<longrightarrow>
      login env d req_body = (400, ErrorBody ''User not found''))
   \<and> (User_findOne env (users d) (req_body ''email'') = Inr (Some user)
        \<and> req_body ''password'' = Undefined \<longrightarrow>
      login env d req_body =
        (500, ErrorDetails ''Server error'' (IllegalArguments ''undefined'' ''string'')))"
proof (intro conjI impI)
  assume "req_body ''email'' = Undefined"
  then have "User_findOne env (users d) (req_body ''email'') = Inr None"
    by (simp add: User_findOne_Undefined)
  then show "login env d req_body = (400, ErrorBody ''User not found'')"
    by (rule login_not_found)
next
  assume a: "User_findOne env (users d) (req_body ''email'') = Inr (Some user)
    \<and> req_body ''password'' = Undefined"
  then have "bcrypt_compare env (req_body ''password'') (u_password user)
    = Inl (IllegalArguments ''undefined'' ''string'')"
    by (simp add: bcrypt_compare_def)
  with a show "login env d req_body =
      (500, ErrorDetails ''Server error'' (IllegalArguments ''undefined'' ''string''))"
    by (simp add: login_compare_throws)
qed

theorem login_no_presence_check_witness:
  "login example_env example_db req_login_no_email = (400, ErrorBody ''User not found'')
   \<and> login example_env example_db req_login_no_password =
        (500, ErrorDetails ''Server error'' (IllegalArguments ''undefined'' ''string''))"
  using login_no_presence_check [of req_login_no_email example_env example_db]
    login_no_presence_check [of req_login_no_password example_env example_db alice]
  by (simp add: req_login_fields find_alice)

section \<open>Signup\<close>

lemma req_signup_fields:
  "req_signup_bob ''firstName'' = JStr ''Bob''"
  "req_signup_bob ''lastName'' = JStr ''B''"
  "req_signup_bob ''email'' = JStr ''bob@example.com''"
  "req_signup_bob ''password'' = JStr ''pw''"
  "req_signup_empty_name ''firstName'' = JStr ''''"
  "req_signup_empty_name ''lastName'' = JStr ''B''"
  "req_signup_empty_name ''email'' = JStr ''bob@example.com''"
  "req_signup_empty_name ''password'' = JStr ''pw''"
  "req_signup_alice_again ''firstName'' = JStr ''Alicia''"
  "req_signup_alice_again ''lastName'' = JStr ''Z''"
  "req_signup_alice_again ''email'' = JStr ''alice@example.com''"
  "req_signup_alice_again ''password'' = JStr ''other''"
  "req_signup_alice_empty_name ''firstName'' = JStr ''''"
  "req_signup_alice_empty_name ''lastName'' = JStr ''Z''"
  "req_signup_alice_empty_name ''email'' = JStr ''alice@example.com''"
  "req_signup_alice_empty_name ''password'' = JStr ''other''"
  by (simp_all add: json_def req_signup_bob_def req_signup_empty_name_def
      req_signup_alice_again_def req_signup_alice_empty_name_def)


lemma signup_invalid:
  "\<not> truthy (req_body ''firstName'') \<or> \<not> truthy (req_body ''lastName'')
     \<or> \<not> truthy (req_body ''email'') \<or> \<not> truthy (req_body ''password'') \<Longrightarrow>
   signup env d req_body = ((400, ErrorBody ''All fields are required''), d)"
  by (auto simp add: signup_def signup_try_def Let_def)

lemma signup_conflict:
  "truthy (req_body ''firstName'') \<Longrightarrow> truthy (req_body ''lastName'') \<Longrightarrow>
   truthy (req_body ''email'') \<Longrightarrow> truthy (req_body ''password'') \<Longrightarrow>
   User_findOne env (users d) (req_body ''email'') = Inr (Some existingUser) \<Longrightarrow>
   signup env d req_body = ((400, ErrorBody ''Email already registered''), d)"
  by (simp add: signup_def signup_try_def)

lemma find_email_Some:
  "e \<in> set (map u_email us) \<Longrightarrow> \<exists>u. User_findOne env us (JStr e) = Inr (Some u)"
  by (induction us) (auto simp add: User_findOne_JStr)

lemma find_email_None:
  "e \<notin> set (map u_email us) \<Longrightarrow> User_findOne env us (JStr e) = Inr None"
  by (induction us) (auto simp add: User_findOne_JStr)





lemma bcrypt_hash_JStr [simp]:
  "bcrypt_hash env (JStr p) rounds = Inr (bcrypt_digest env p rounds)"
  by (simp add: bcrypt_hash_def)











text \<open>
  A signup with a registered email and an empty first name is refused for the first name,
  not for the email.
\<close>

theorem signup_conflict_counterexample:
  "req_signup_alice_empty_name ''firstName'' = JStr ''''
   \<and> req_signup_alice_empty_name ''email'' = JStr ''alice@example.com''
   \<and> ''alice@example.com'' \<in> set (map u_email (users example_db))
   \<and> signup example_env example_db req_signup_alice_empty_name =
       ((400, ErrorBody ''All fields are required''), example_db)
   \<and> fst (signup example_env example_db req_signup_alice_empty_name)
       \<noteq> (400, ErrorBody ''Email already registered'')"
  by (simp add: req_signup_fields signup_invalid example_db_def alice_def)

text \<open>
  C4, as the code has it. For every signup request whose email is that of a stored user,
  the handler answers 400 and leaves the database as it was, whatever the other fields
  are. The error is \<^verbatim>\<open>Email already registered\<close> when all four fields are truthy,
  and \<^verbatim>\<open>All fields are required\<close> otherwise: the presence check comes first.
\<close>

theorem signup_registered_email_rejected:
  "req_body ''email'' = JStr e \<and> e \<in> set (map u_email (users d)) \<longrightarrow>
   signup env d req_body =
     ((400, ErrorBody
        (if truthy (req_body ''firstName'') \<and> truthy (req_body ''lastName'') \<and> e \<noteq> []
            \<and> truthy (req_body ''password'')
         then ''Email already registered'' else ''All fields are required'')), d)"
proof
  assume a: "req_body ''email'' = JStr e \<and> e \<in> set (map u_email (users d))"
  then obtain u where u: "User_findOne env (users d) (req_body ''email'') = Inr (Some u)"
    using find_email_Some [of e "users d" env] by auto
  show "signup env d req_body =
     ((400, ErrorBody
        (if truthy (req_body ''firstName'') \<and> truthy (req_body ''lastName'') \<and> e \<noteq> []
            \<and> truthy (req_body ''password'')
         then ''Email already registered'' else ''All fields are required'')), d)"
  proof (cases "truthy (req_body ''firstName'') \<and> truthy (req_body ''lastName'') \<and> e \<noteq> []
            \<and> truthy (req_body ''password'')")
    case True
    then show ?thesis using a u by (simp add: signup_conflict)
  next
    case False
    then have "\<not> truthy (req_body ''firstName'') \<or> \<not> truthy (req_body ''lastName'')
     \<or> \<not> truthy (req_body ''email'') \<or> \<not> truthy (req_body ''password'')"
      using a by auto
    then have "signup env d req_body = ((400, ErrorBody ''All fields are required''), d)"
      by (rule signup_invalid)
    then show ?thesis using False by simp
  qed
qed

theorem signup_registered_email_rejected_witness:
  "signup example_env example_db req_signup_alice_again =
     ((400, ErrorBody ''Email already registered''), example_db)
   \<and> signup example_env example_db req_signup_alice_empty_name =
     ((400, ErrorBody ''All fields are required''), example_db)"
proof -
  have reg: "''alice@example.com'' \<in> set (map u_email (users example_db))"
    by (simp add: example_db_def alice_def)
  show ?thesis
    using signup_registered_email_rejected
      [of req_signup_alice_again "''alice@example.com''" example_db example_env]
      signup_registered_email_rejected
      [of req_signup_alice_empty_name "''alice@example.com''" example_db example_env]
      reg
    by (simp add: req_signup_fields)
qed

section \<open>Password reset\<close>

lemma req_reset_fields:
  "req_reset_alice ''email'' = JStr ''alice@example.com''"
  "req_reset_bounce ''email'' = JStr ''bounce@example.com''"
  "req_reset_no_email ''email'' = Undefined"
  by (simp_all add: json_def req_reset_alice_def req_reset_bounce_def req_reset_no_email_def)

lemma reset_password_provider_fails:
  "generatePasswordResetLink env (req_body ''email'') = Inl reason \<Longrightarrow>
   reset_password_try env req_body = Inl (ProviderError reason)"
  by (simp add: reset_password_try_def admin_generatePasswordResetLink_def)

lemma reset_password_mail_fails:
  "generatePasswordResetLink env (req_body ''email'') = Inr link \<Longrightarrow>
   sendMail env \<lparr>mail_from = EMAIL_USER env, mail_to = req_body ''email'',
                 mail_subject = ''Password Reset'',
                 mail_text = ''Click the following link to reset your password: '' @ link\<rparr>
     = Inl reason \<Longrightarrow>
   reset_password_try env req_body = Inl (MailError reason)"
  by (simp add: reset_password_try_def admin_generatePasswordResetLink_def
      transporter_sendMail_def)

lemma reset_password_sent:
  "generatePasswordResetLink env (req_body ''email'') = Inr link \<Longrightarrow>
   sendMail env \<lparr>mail_from = EMAIL_USER env, mail_to = req_body ''email'',
                 mail_subject = ''Password Reset'',
                 mail_text = ''Click the following link to reset your password: '' @ link\<rparr>
     = Inr () \<Longrightarrow>
   reset_password_try env req_body = Inr (200, MessageLink ''Password reset email sent!'' link)"
  by (simp add: reset_password_try_def admin_generatePasswordResetLink_def
      transporter_sendMail_def)

text \<open>
  C5. For every reset-password request: when the identity provider rejects the email the
  \<^verbatim>\<open>try\<close> block ends in a provider error; when the provider gives a link and the
  mail relay fails it ends in a mail error; both are answered 500
  \<^verbatim>\<open>Failed to send reset email\<close>. When both succeed the answer is 200 with the
  confirmation message and the generated link itself.
\<close>

theorem reset_password_outcomes:
  "(generatePasswordResetLink env (req_body ''email'') = Inl reason \<longrightarrow>
      reset_password_try env req_body = Inl (ProviderError reason)
      \<and> reset_password env req_body = (500, ErrorBody ''Failed to send reset email''))
   \<and> (generatePasswordResetLink env (req_body ''email'') = Inr link
        \<and> sendMail env \<lparr>mail_from = EMAIL_USER env, mail_to = req_body ''email'',
              mail_subject = ''Password Reset'',
              mail_text = ''Click the following link to reset your password: '' @ link\<rparr>
            = Inl reason \<longrightarrow>
      reset_password_try env req_body = Inl (MailError reason)
      \<and> reset_password env req_body = (500, ErrorBody ''Failed to send reset email''))
   \<and> (generatePasswordResetLink env (req_body ''email'') = Inr link
        \<and> sendMail env \<lparr>mail_from = EMAIL_USER env, mail_to = req_body ''email'',
              mail_subject = ''Password Reset'',
              mail_text = ''Click the following link to reset your password: '' @ link\<rparr>
            = Inr () \<longrightarrow>
      reset_password env req_body = (200, MessageLink ''Password reset email sent!'' link))"
  by (simp add: reset_password_def reset_password_provider_fails reset_password_mail_fails
      reset_password_sent)

theorem reset_password_outcomes_witness:
  "reset_password_try example_env req_reset_no_email = Inl (ProviderError ''auth/invalid-email'')
   \<and> reset_password example_env req_reset_no_email
       = (500, ErrorBody ''Failed to send reset email'')
   \<and> reset_password_try example_env req_reset_bounce = Inl (MailError ''EENVELOPE'')
   \<and> reset_password example_env req_reset_bounce
       = (500, ErrorBody ''Failed to send reset email'')
   \<and> reset_password example_env req_reset_alice
       = (200, MessageLink ''Password reset email sent!''
            ''https://id.example/reset/alice@example.com'')"
proof -
  have provider:
    "generatePasswordResetLink example_env Undefined = Inl ''auth/invalid-email''"
    "generatePasswordResetLink example_env (JStr ''bounce@example.com'')
       = Inr ''https://id.example/reset/bounce@example.com''"
    "generatePasswordResetLink example_env (JStr ''alice@example.com'')
       = Inr ''https://id.example/reset/alice@example.com''"
    by (simp_all add: example_env_def)
  have relay:
    "sendMail example_env m = (if mail_to m = JStr ''bounce@example.com''
       then Inl ''EENVELOPE'' else Inr ())" for m
    by (simp add: example_env_def)
  show ?thesis
    using reset_password_outcomes [of example_env req_reset_no_email "''auth/invalid-email''"]
      reset_password_outcomes [of example_env req_reset_bounce "''EENVELOPE''"
        "''https://id.example/reset/bounce@example.com''"]
      reset_password_outcomes [of example_env req_reset_alice _
        "''https://id.example/reset/alice@example.com''"]
    by (simp add: req_reset_fields provider relay)
qed

section \<open>Trips and notifications\<close>

lemma trip_add_invalid:
  "\<not> truthy (req_body ''name'') \<or> \<not> truthy (req_body ''date'')
     \<or> \<not> truthy (req_body ''budget'') \<Longrightarrow>
   trip_add env d req_body = ((400, ErrorBody ''All fields are required''), d)"
  by (auto simp add: trip_add_def trip_add_try_def Let_def)

lemma notification_add_invalid:
  "\<not> truthy (req_body ''message'') \<or> \<not> truthy (req_body ''type'') \<Longrightarrow>
   notification_add env d req_body = ((400, ErrorBody ''Message and type are required''), d)"
  by (auto simp add: notification_add_def notification_add_try_def Let_def)

lemma req_trip_fields:
  "req_trip_no_budget ''budget'' = Undefined"
  "req_trip_zero_budget ''name'' = JStr ''Paris''"
  "req_trip_zero_budget ''date'' = JStr ''2025-06-01''"
  "req_trip_zero_budget ''budget'' = JNum 0"
  "req_trip_empty_name ''name'' = JStr ''''"
  "req_notification_no_type ''type'' = Undefined"
  "req_notification_empty_type ''type'' = JStr ''''"
  by (simp_all add: json_def req_trip_no_budget_def req_trip_zero_budget_def
      req_trip_empty_name_def req_notification_no_type_def req_notification_empty_type_def)

text \<open>
  C6. A trip-add request without a name, a date or a budget, and a notification-add
  request without a message or a type, is answered 400 with the validation error, and the
  database stays as it was.
\<close>

theorem add_missing_field_rejected:
  "(req_body ''name'' = Undefined \<or> req_body ''date'' = Undefined
      \<or> req_body ''budget'' = Undefined \<longrightarrow>
      trip_add env d req_body = ((400, ErrorBody ''All fields are required''), d))
   \<and> (req_body ''message'' = Undefined \<or> req_body ''type'' = Undefined \<longrightarrow>
      notification_add env d req_body
        = ((400, ErrorBody ''Message and type are required''), d))"
proof (intro conjI impI)
  assume "req_body ''name'' = Undefined \<or> req_body ''date'' = Undefined
      \<or> req_body ''budget'' = Undefined"
  then have "\<not> truthy (req_body ''name'') \<or> \<not> truthy (req_body ''date'')
     \<or> \<not> truthy (req_body ''budget'')"
    by auto
  then show "trip_add env d req_body = ((400, ErrorBody ''All fields are required''), d)"
    by (rule trip_add_invalid)
next
  assume "req_body ''message'' = Undefined \<or> req_body ''type'' = Undefined"
  then have "\<not> truthy (req_body ''message'') \<or> \<not> truthy (req_body ''type'')"
    by auto
  then show "notification_add env d req_body
        = ((400, ErrorBody ''Message and type are required''), d)"
    by (rule notification_add_invalid)
qed

theorem add_missing_field_rejected_witness:
  "trip_add example_env example_db req_trip_no_budget
     = ((400, ErrorBody ''All fields are required''), example_db)
   \<and> notification_add example_env example_db req_notification_no_type
     = ((400, ErrorBody ''Message and type are required''), example_db)"
  using add_missing_field_rejected [of req_trip_no_budget example_env example_db]
    add_missing_field_rejected [of req_notification_no_type example_env example_db]
  by (simp add: req_trip_fields)

text \<open>
  C9. The required-field checks refuse falsy values that are present. A trip-add request
  whose budget is the number 0, and a trip-add, notification-add or signup request one of
  whose required fields is the empty string, gets the same 400 validation error as the
  request without that field, and the database stays as it was.
\<close>

theorem falsy_field_rejected:
  "(req_body ''budget'' = JNum 0 \<longrightarrow>
      trip_add env d req_body = ((400, ErrorBody ''All fields are required''), d)
      \<and> trip_add env d req_body = trip_add env d (req_body(''budget'' := Undefined)))
   \<and> (field \<in> {''name'', ''date'', ''budget''} \<and> req_body field = JStr [] \<longrightarrow>
      trip_add env d req_body = ((400, ErrorBody ''All fields are required''), d)
      \<and> trip_add env d req_body = trip_add env d (req_body(field := Undefined)))
   \<and> (field \<in> {''message'', ''type''} \<and> req_body field = JStr [] \<longrightarrow>
      notification_add env d req_body
        = ((400, ErrorBody ''Message and type are required''), d)
      \<and> notification_add env d req_body
        = notification_add env d (req_body(field := Undefined)))
   \<and> (field \<in> {''firstName'', ''lastName'', ''email'', ''password''}
        \<and> req_body field = JStr [] \<longrightarrow>
      signup env d req_body = ((400, ErrorBody ''All fields are required''), d)
      \<and> signup env d req_body = signup env d (req_body(field := Undefined)))"
proof (intro conjI impI)
  assume "req_body ''budget'' = JNum 0"
  then show "trip_add env d req_body = ((400, ErrorBody ''All fields are required''), d)"
    by (simp add: trip_add_invalid)
  then show "trip_add env d req_body = trip_add env d (req_body(''budget'' := Undefined))"
    by (simp add: trip_add_invalid)
next
  assume a: "field \<in> {''name'', ''date'', ''budget''} \<and> req_body field = JStr []"
  then have "\<not> truthy (req_body ''name'') \<or> \<not> truthy (req_body ''date'')
     \<or> \<not> truthy (req_body ''budget'')"
    by auto
  then show r: "trip_add env d req_body = ((400, ErrorBody ''All fields are required''), d)"
    by (rule trip_add_invalid)
  have "\<not> truthy ((req_body(field := Undefined)) ''name'')
     \<or> \<not> truthy ((req_body(field := Undefined)) ''date'')
     \<or> \<not> truthy ((req_body(field := Undefined)) ''budget'')"
    using a by auto
  then have "trip_add env d (req_body(field := Undefined))
      = ((400, ErrorBody ''All fields are required''), d)"
    by (rule trip_add_invalid)
  with r show "trip_add env d req_body = trip_add env d (req_body(field := Undefined))"
    by simp
next
  assume a: "field \<in> {''message'', ''type''} \<and> req_body field = JStr []"
  then have "\<not> truthy (req_body ''message'') \<or> \<not> truthy (req_body ''type'')"
    by auto
  then show r: "notification_add env d req_body
      = ((400, ErrorBody ''Message and type are required''), d)"
    by (rule notification_add_invalid)
  have "\<not> truthy ((req_body(field := Undefined)) ''message'')
     \<or> \<not> truthy ((req_body(field := Undefined)) ''type'')"
    using a by auto
  then have "notification_add env d (req_body(field := Undefined))
      = ((400, ErrorBody ''Message and type are required''), d)"
    by (rule notification_add_invalid)
  with r show "notification_add env d req_body
      = notification_add env d (req_body(field := Undefined))"
    by simp
next
  assume a: "field \<in> {''firstName'', ''lastName'', ''email'', ''password''}
        \<and> req_body field = JStr []"
  then have "\<not> truthy (req_body ''firstName'') \<or> \<not> truthy (req_body ''lastName'')
     \<or> \<not> truthy (req_body ''email'') \<or> \<not> truthy (req_body ''password'')"
    by auto
  then show r: "signup env d req_body = ((400, ErrorBody ''All fields are required''), d)"
    by (rule signup_invalid)
  have "\<not> truthy ((req_body(field := Undefined)) ''firstName'')
     \<or> \<not> truthy ((req_body(field := Undefined)) ''lastName'')
     \<or> \<not> truthy ((req_body(field := Undefined)) ''email'')
     \<or> \<not> truthy ((req_body(field := Undefined)) ''password'')"
    using a by auto
  then have "signup env d (req_body(field := Undefined))
      = ((400, ErrorBody ''All fields are required''), d)"
    by (rule signup_invalid)
  with r show "signup env d req_body = signup env d (req_body(field := Undefined))"
    by simp
qed

theorem falsy_field_rejected_witness:
  "trip_add example_env example_db req_trip_zero_budget
     = ((400, ErrorBody ''All fields are required''), example_db)
   \<and> trip_add example_env example_db req_trip_empty_name
     = ((400, ErrorBody ''All fields are required''), example_db)
   \<and> notification_add example_env example_db req_notification_empty_type
     = ((400, ErrorBody ''Message and type are required''), example_db)
   \<and> signup example_env example_db req_signup_empty_name
     = ((400, ErrorBody ''All fields are required''), example_db)"
  using falsy_field_rejected
      [where req_body = req_trip_zero_budget and env = example_env and d = example_db]
    falsy_field_rejected
      [where req_body = req_trip_empty_name and field = "''name''" and env = example_env
        and d = example_db]
    falsy_field_rejected
      [where req_body = req_notification_empty_type and field = "''type''"
        and env = example_env and d = example_db]
    falsy_field_rejected
      [where req_body = req_signup_empty_name and field = "''firstName''"
        and env = example_env and d = example_db]
  by (simp add: req_trip_fields req_signup_fields)

lemma hex3: "castObjectId ''abc'' = None"
  by (simp add: castObjectId_def)

lemma sort_three:
  assumes m: "mset xs = {#a, b, c#}" and ab: "t_date a < t_date b" and bc: "t_date b < t_date c"
  shows "sort_key t_date xs = [a, b, c]"
proof (rule properties_for_sort_key)
  show "mset [a, b, c] = mset xs" using m by simp
  show "sorted (map t_date [a, b, c])" using ab bc by simp
  fix k assume k: "k \<in> set [a, b, c]"
  have "filter_mset (\<lambda>x. t_date k = t_date x) (mset xs) = {#k#}"
    unfolding m using k ab bc by auto
  then have "mset (filter (\<lambda>x. t_date k = t_date x) xs) = {#k#}"
    by (simp only: mset_filter)
  then have "filter (\<lambda>x. t_date k = t_date x) xs = [k]"
    by (simp only: mset_single_iff)
  moreover have "filter (\<lambda>x. t_date k = t_date x) [a, b, c] = [k]"
    using k ab bc by auto
  ultimately show "filter (\<lambda>x. t_date k = t_date x) [a, b, c]
      = filter (\<lambda>x. t_date k = t_date x) xs"
    by simp
qed

text \<open>
  C7. For every state of the trip collection, the listing is answered 200 with all the
  stored trips, each as often as it is stored, in ascending order of date; with no trip
  stored it is the empty list; and three stored trips with dates D1 < D2 < D3 are listed in
  that order however the collection holds them.
\<close>

theorem trip_list_sorted_by_date:
  "\<exists>found. trip_list d = (200, TripList found)
     \<and> sorted (map t_date found) \<and> mset found = mset (trips d)
     \<and> (trips d = [] \<longrightarrow> found = [])
     \<and> (\<forall>a b c. mset (trips d) = {#a, b, c#} \<and> t_date a < t_date b \<and> t_date b < t_date c
          \<longrightarrow> found = [a, b, c])"
proof (intro exI conjI allI impI)
  show "trip_list d = (200, TripList (sort_key t_date (trips d)))"
    by (simp add: trip_list_def Trip_find_sort_def)
  show "sorted (map t_date (sort_key t_date (trips d)))"
    by (rule sorted_sort_key)
  show "mset (sort_key t_date (trips d)) = mset (trips d)"
    by (rule mset_sort)
next
  assume "trips d = []"
  then show "sort_key t_date (trips d) = []" by simp
next
  fix a b c
  assume "mset (trips d) = {#a, b, c#} \<and> t_date a < t_date b \<and> t_date b < t_date c"
  then show "sort_key t_date (trips d) = [a, b, c]"
    by (simp add: sort_three)
qed

theorem trip_list_sorted_by_date_witness:
  "trip_list travel_db = (200, TripList [paris, rome, oslo])
   \<and> trip_list example_db = (200, TripList [])"
proof -
  from trip_list_sorted_by_date [of travel_db] obtain found where
    r: "trip_list travel_db = (200, TripList found)"
    and three: "\<forall>a b c. mset (trips travel_db) = {#a, b, c#}
          \<and> t_date a < t_date b \<and> t_date b < t_date c \<longrightarrow> found = [a, b, c]"
    by blast
  have "mset (trips travel_db) = {#paris, rome, oslo#}"
    by (simp add: travel_db_def)
  moreover have "t_date paris < t_date rome" "t_date rome < t_date oslo"
    by (simp_all add: paris_def rome_def oslo_def)
  ultimately have "found = [paris, rome, oslo]"
    using three by blast
  with r have first: "trip_list travel_db = (200, TripList [paris, rome, oslo])"
    by simp
  from trip_list_sorted_by_date [of example_db] obtain none where
    "trip_list example_db = (200, TripList none)" and "trips example_db = [] \<longrightarrow> none = []"
    by blast
  then have "trip_list example_db = (200, TripList [])"
    by (simp add: example_db_def)
  with first show ?thesis by simp
qed

text \<open>A collection that holds a record with the id splits at the first such record.\<close>

lemma first_match_split:
  "\<exists>x\<in>set xs. P x \<Longrightarrow>
   \<exists>before victim after. xs = before @ victim # after \<and> P victim \<and> (\<forall>x\<in>set before. \<not> P x)"
  by (metis split_list_first_prop)

lemma delete_first_absent: "\<forall>x\<in>set xs. \<not> P x \<Longrightarrow> delete_first P xs = xs"
  by (induction xs) auto

lemma delete_first_split:
  "\<forall>x\<in>set before. \<not> P x \<Longrightarrow> P victim \<Longrightarrow>
   delete_first P (before @ victim # after) = before @ after"
  by (induction before) auto

lemma trip_delete_cast:
  "castObjectId ident = Some oid \<Longrightarrow>
   trip_delete d ident =
     ((200, Message ''Trip deleted successfully!''),
      d\<lparr>trips := delete_first (\<lambda>t. t_id t = oid) (trips d)\<rparr>)"
  by (simp add: trip_delete_def Trip_findByIdAndDelete_def)

lemma notification_delete_cast:
  "castObjectId ident = Some oid \<Longrightarrow>
   notification_delete d ident =
     ((200, Message ''Notification deleted successfully!''),
      d\<lparr>notifications := delete_first (\<lambda>n. n_id n = oid) (notifications d)\<rparr>)"
  by (simp add: notification_delete_def Notification_findByIdAndDelete_def)

lemma delete_malformed:
  "castObjectId ident = None \<Longrightarrow>
   trip_delete d ident = ((500, ErrorBody ''Error deleting trip''), d)
   \<and> notification_delete d ident = ((500, ErrorBody ''Error deleting notification''), d)"
  by (simp add: trip_delete_def Trip_findByIdAndDelete_def notification_delete_def
      Notification_findByIdAndDelete_def)

text \<open>
  Not every id is answered 200: an id that is not an ObjectId makes the delete throw, and
  the handler answers 500.
\<close>

theorem delete_any_id_counterexample:
  "trip_delete travel_db ''abc'' = ((500, ErrorBody ''Error deleting trip''), travel_db)
   \<and> notification_delete travel_db ''abc''
       = ((500, ErrorBody ''Error deleting notification''), travel_db)"
  by (simp add: delete_malformed hex3)

text \<open>
  C8, as the code has it. For every id that is a well-formed ObjectId (24 hexadecimal
  digits), deleting a trip or a notification by that id is answered 200. When no stored
  record has the id the database stays as it was; when one has, the first record with that
  id is removed and every other record stays, in its place.
\<close>

theorem delete_by_wellformed_id:
  "castObjectId ident = Some oid \<longrightarrow>
     ((\<forall>t\<in>set (trips d). t_id t \<noteq> oid) \<longrightarrow>
        trip_delete d ident = ((200, Message ''Trip deleted successfully!''), d))
   \<and> (trips d = before @ victim # after \<and> t_id victim = oid
        \<and> (\<forall>t\<in>set before. t_id t \<noteq> oid) \<longrightarrow>
        trip_delete d ident =
          ((200, Message ''Trip deleted successfully!''), d\<lparr>trips := before @ after\<rparr>))
   \<and> ((\<forall>n\<in>set (notifications d). n_id n \<noteq> oid) \<longrightarrow>
        notification_delete d ident
          = ((200, Message ''Notification deleted successfully!''), d))
   \<and> (notifications d = nbefore @ nvictim # nafter \<and> n_id nvictim = oid
        \<and> (\<forall>n\<in>set nbefore. n_id n \<noteq> oid) \<longrightarrow>
        notification_delete d ident =
          ((200, Message ''Notification deleted successfully!''),
           d\<lparr>notifications := nbefore @ nafter\<rparr>))"
proof (intro impI conjI)
  assume c: "castObjectId ident = Some oid"
  {
    assume "\<forall>t\<in>set (trips d). t_id t \<noteq> oid"
    then have "delete_first (\<lambda>t. t_id t = oid) (trips d) = trips d"
      by (simp add: delete_first_absent)
    with c show "trip_delete d ident = ((200, Message ''Trip deleted successfully!''), d)"
      by (simp add: trip_delete_cast)
  }
  {
    assume "trips d = before @ victim # after \<and> t_id victim = oid
        \<and> (\<forall>t\<in>set before. t_id t \<noteq> oid)"
    then have "delete_first (\<lambda>t. t_id t = oid) (trips d) = before @ after"
      by (simp add: delete_first_split)
    with c show "trip_delete d ident =
          ((200, Message ''Trip deleted successfully!''), d\<lparr>trips := before @ after\<rparr>)"
      by (simp add: trip_delete_cast)
  }
  {
    assume "\<forall>n\<in>set (notifications d). n_id n \<noteq> oid"
    then have "delete_first (\<lambda>n. n_id n = oid) (notifications d) = notifications d"
      by (simp add: delete_first_absent)
    with c show "notification_delete d ident
          = ((200, Message ''Notification deleted successfully!''), d)"
      by (simp add: notification_delete_cast)
  }
  {
    assume "notifications d = nbefore @ nvictim # nafter \<and> n_id nvictim = oid
        \<and> (\<forall>n\<in>set nbefore. n_id n \<noteq> oid)"
    then have "delete_first (\<lambda>n. n_id n = oid) (notifications d) = nbefore @ nafter"
      by (simp add: delete_first_split)
    with c show "notification_delete d ident =
          ((200, Message ''Notification deleted successfully!''),
           d\<lparr>notifications := nbefore @ nafter\<rparr>)"
      by (simp add: notification_delete_cast)
  }
qed

theorem delete_by_wellformed_id_witness:
  "trip_delete travel_db ''00000000000000000000000A''
     = ((200, Message ''Trip deleted successfully!''), travel_db)
   \<and> trip_delete travel_db ''000000000000000000000001''
     = ((200, Message ''Trip deleted successfully!''), travel_db\<lparr>trips := [oslo, rome]\<rparr>)
   \<and> notification_delete travel_db ''00000000000000000000000A''
     = ((200, Message ''Notification deleted successfully!''), travel_db)
   \<and> notification_delete travel_db ''000000000000000000000001''
     = ((200, Message ''Notification deleted successfully!''),
        travel_db\<lparr>notifications := [delayed]\<rparr>)"
proof -
  have ids: "castObjectId ''00000000000000000000000A'' = Some 10"
    "castObjectId ''000000000000000000000001'' = Some 1"
    by (simp_all add: castObjectId_def hex_digit_def)
  have ts: "trips travel_db = [oslo] @ paris # [rome]"
    "notifications travel_db = [] @ boarding # [delayed]"
    by (simp_all add: travel_db_def)
  have who: "t_id oslo = 3" "t_id paris = 1" "t_id rome = 2" "n_id boarding = 1" "n_id delayed = 2"
    by (simp_all add: oslo_def paris_def rome_def boarding_def delayed_def)
  have absent: "\<forall>t\<in>set (trips travel_db). t_id t \<noteq> 10"
    "\<forall>n\<in>set (notifications travel_db). n_id n \<noteq> 10"
    by (simp_all add: travel_db_def who)
  show ?thesis
    using delete_by_wellformed_id
      [where ident = "''00000000000000000000000A''" and oid = 10 and d = travel_db]
      delete_by_wellformed_id
      [where ident = "''000000000000000000000001''" and oid = 1 and d = travel_db
        and before = "[oslo]" and victim = paris and after = "[rome]"
        and nbefore = "[]" and nvictim = boarding and nafter = "[delayed]"]
      ids ts absent
    by (simp add: who)
qed

end
